theory Spec2Isabelle
  imports Complex_Main "HOL-Library.AList"
begin

section \<open>The fill-extrusion renderer (src/render/draw_fill_extrusion.js)\<close>

text \<open>
  The file holds four functions: \<open>draw\<close> (the entry point of a layer's render pass),
  \<open>drawToExtrusionFramebuffer\<close> (preparation of the offscreen target),
  \<open>drawExtrusionTexture\<close> (the compositing blit) and \<open>drawExtrusion\<close> (one tile's draw).
  They mutate the painter, the GL context and the layer, and call collaborators that live
  in other modules. The embedding passes the painter and the layer explicitly and records
  every call to a collaborator, in order, in a trace kept in the painter. JavaScript
  numbers are taken as real numbers.
\<close>

subsection \<open>Data\<close>

datatype jsError = ReferenceError string

text \<open>The constants and fields of the WebGL context that the file reads.\<close>

record WebGLRenderingContext =
  LEQUAL :: nat
  RGBA :: nat
  LINEAR :: nat
  CLAMP_TO_EDGE :: nat
  TEXTURE0 :: nat
  TEXTURE_2D :: nat
  TRIANGLE_STRIP :: nat
  TRIANGLES :: nat
  drawingBufferWidth :: real
  drawingBufferHeight :: real

type_synonym vec3 = "real \<times> real \<times> real"

text \<open>A \<open>mat3\<close> of gl-matrix: nine numbers in column-major order.\<close>

type_synonym mat3 = "real list"

record Light =
  position :: vec3
  anchor :: string
  color :: "real \<times> real \<times> real \<times> real"
  intensity :: real

text \<open>The value of the paint property \<open>fill-extrusion-pattern\<close> (a cross-faded pair of image names).\<close>

datatype image = CrossFaded string string

record Paint =
  fill_extrusion_opacity :: real
  fill_extrusion_pattern :: "image option"
  fill_extrusion_translate :: "real \<times> real"
  fill_extrusion_translate_anchor :: string

text \<open>
  The framebuffer object that \<open>context.createFramebuffer\<close> returns and the layer caches in
  \<open>viewportFrame\<close>: its GL handle, the size it was created with, and its two attachments.
\<close>

record RenderTarget =
  framebuffer :: nat
  fbWidth :: real
  fbHeight :: real
  colorAttachment :: "nat option"
  depthAttachment :: "nat option"

record Layer =
  layerId :: string
  paint :: Paint
  viewportFrame :: "RenderTarget option"

text \<open>
  A bucket: \<open>programConfigurations.get(layer.id)\<close> is a lookup by layer id (a bucket that a tile
  returns for a layer carries that layer's configuration), and the buffers are GL handles.
\<close>

record Bucket =
  programConfigurations :: "string \<Rightarrow> nat"
  layoutVertexBuffer :: nat
  indexBuffer :: nat
  segments :: nat

text \<open>A tile: \<open>tile.getBucket(layer)\<close> is \<open>buckets tile (layerId layer)\<close>, \<open>None\<close> when the tile has none.\<close>

record Tile =
  tileSize :: real
  buckets :: "string \<Rightarrow> Bucket option"

record OverscaledTileID =
  overscaledZ :: nat
  posMatrix :: "real list"
  key :: nat

text \<open>The \<open>Program\<close> object that \<open>painter.useProgram\<close> returns; \<open>program\<close> is its WebGLProgram handle.\<close>

record Program =
  program :: nat

datatype depthMask = ReadOnly | ReadWrite

datatype DepthMode = DepthMode nat depthMask "real \<times> real" | DepthDisabled

text \<open>
  \<open>StencilMode.disabled\<close> is read as a value on line 87 and called on line 39; both are the
  one disabled stencil mode here.
\<close>

datatype StencilMode = StencilDisabled

datatype ColorMode = ColorMode nat

datatype uniformValue =
  UFloat real
  | UVec3 vec3
  | UMatrix "real list"
  | UOther nat

text \<open>
  One constructor for each call that the file makes for its effect on the painter, the
  context, a texture, a framebuffer or a program, and for each of the three calls into the
  pattern module, which is handed the painter and keeps the atlas. Handles of GL objects,
  sizes and the arguments that the claims speak about are kept.
\<close>

datatype glCall =
  SetupOffscreenDepthRenderbuffer
  | NewTexture nat real real nat
  | TextureBind nat nat nat
  | CreateFramebuffer nat real real
  | ColorAttachmentSet nat nat
  | BindFramebufferSet nat
  | DepthAttachmentSet nat "nat option"
  | ClearDepth real
  | ClearColor "real \<times> real \<times> real \<times> real"
  | UseProgram string "nat option" "nat option"
  | SetStencilMode StencilMode
  | SetDepthMode DepthMode
  | SetColorMode ColorMode
  | ActiveTextureSet nat
  | BindTexture nat "nat option"
  | Uniform1f string real
  | Uniform1i string int
  | UniformMatrix4fv string bool "real list"
  | Uniform2f string real real
  | VaoBind nat
  | DrawArrays nat nat nat
  | SetUniforms nat nat real
  | BoundUniformsSet nat "(string \<times> uniformValue) list"
  | IsPatternMissing image
  | PatternPrepare image
  | PatternSetTile nat
  | ProgramDraw nat nat DepthMode StencilMode ColorMode string nat nat nat real nat

text \<open>
  The painter with its context and transform flattened into one record: \<open>context_program\<close>
  is \<open>painter.context.program\<close> (the WebGLProgram in use, \<open>None\<close> before any),
  \<open>zoom\<close> and \<open>angle\<close> are \<open>painter.transform.zoom\<close> and \<open>.angle\<close>, \<open>light\<close> is
  \<open>painter.style.light\<close>. \<open>nextHandle\<close> numbers the GL objects allocated so far, so that two
  allocations never give the same object. \<open>trace\<close> is the list of calls made so far.
\<close>

record Painter =
  renderPass :: string
  depthRboNeedsClear :: bool
  width :: real
  height :: real
  depthRbo :: "nat option"
  gl :: WebGLRenderingContext
  context_program :: "nat option"
  zoom :: real
  angle :: real
  light :: Light
  nextHandle :: nat
  trace :: "glCall list"

text \<open>
  What the file takes from its surroundings.

  Two identifiers are used without a declaration in the file: \<open>gl\<close> inside \<open>draw\<close>
  (line 38; the other three functions declare their own \<open>gl\<close>), and
  \<open>fillExtrusionPatternUniforms\<close> (line 118; its import on line 14 is commented out).
  Reading an identifier that is bound nowhere raises a ReferenceError, so both are optional
  here: \<open>None\<close> is "not bound in the enclosing scope", which is the case of the file as it
  stands.

  The other fields are the collaborators whose code is in other modules: they are parameters,
  and each may depend on the whole painter, the calls made so far included (a collaborator
  may keep state of its own, as the pattern atlas does).
\<close>

record Env =
  free_gl :: "WebGLRenderingContext option"
  fillExtrusionUniforms :: nat
  fillExtrusionPatternUniforms :: "nat option"
  isPatternMissing :: "image \<Rightarrow> Painter \<Rightarrow> bool"
  resolveProgram :: "string \<Rightarrow> nat option \<Rightarrow> nat option \<Rightarrow> Program"
  colorModeForRenderPass :: "Painter \<Rightarrow> ColorMode"
  translatePosMatrix :: "Painter \<Rightarrow> real list \<Rightarrow> Tile \<Rightarrow> real \<times> real \<Rightarrow> string \<Rightarrow> real list"
  patternPrepare :: "image \<Rightarrow> Painter \<Rightarrow> Program \<Rightarrow> (string \<times> uniformValue) list"
  patternSetTile :: "Tile \<Rightarrow> Painter \<Rightarrow> Program \<Rightarrow> (string \<times> uniformValue) list"

subsection \<open>Collaborators\<close>

definition emit :: "glCall list \<Rightarrow> Painter \<Rightarrow> Painter" where
  "emit cs p = p\<lparr>trace := trace p @ cs\<rparr>"

text \<open>
  Modelled from the spec: \<open>painter.useProgram\<close> (painter.js is not under src/). The spec's
  dispatcher resolves the selected program and then updates the previous program to the
  resolved one; the program resolved for a name, a configuration and a set of uniform
  bindings is the parameter \<open>resolveProgram\<close>.
\<close>

definition useProgram :: "Env \<Rightarrow> Painter \<Rightarrow> string \<Rightarrow> nat option \<Rightarrow> nat option \<Rightarrow> Program \<times> Painter" where
  "useProgram E p name cfg ub =
     (let prog = resolveProgram E name cfg ub
      in (prog, emit [UseProgram name cfg ub] (p\<lparr>context_program := Some (program prog)\<rparr>)))"

text \<open>
  Modelled from the spec: \<open>painter.setupOffscreenDepthRenderbuffer\<close> (painter.js is not under
  src/). The spec's shared depth buffer is one resource reused by all layers, and its
  needs-clear flag is unset by the preparation itself; the call is recorded and leaves the
  painter's fields as they are.
\<close>

definition setupOffscreenDepthRenderbuffer :: "Painter \<Rightarrow> Painter" where
  "setupOffscreenDepthRenderbuffer p = emit [SetupOffscreenDepthRenderbuffer] p"

text \<open>\<open>Color.transparent\<close>.\<close>

definition transparent :: "real \<times> real \<times> real \<times> real" where
  "transparent = (0, 0, 0, 0)"

subsection \<open>gl-matrix\<close>

text \<open>\<open>mat3.create\<close> (the identity), \<open>mat3.fromRotation\<close>, \<open>vec3.transformMat3\<close> and \<open>mat4.ortho\<close>.\<close>

definition mat3_create :: mat3 where
  "mat3_create = [1, 0, 0, 0, 1, 0, 0, 0, 1]"

definition mat3_fromRotation :: "real \<Rightarrow> mat3" where
  "mat3_fromRotation rad =
     (let s = sin rad; c = cos rad in [c, s, 0, - s, c, 0, 0, 0, 1])"

definition vec3_transformMat3 :: "vec3 \<Rightarrow> mat3 \<Rightarrow> vec3" where
  "vec3_transformMat3 a m =
     (case a of (x, y, z) \<Rightarrow>
        (x * m ! 0 + y * m ! 3 + z * m ! 6,
         x * m ! 1 + y * m ! 4 + z * m ! 7,
         x * m ! 2 + y * m ! 5 + z * m ! 8))"

definition mat4_ortho :: "real \<Rightarrow> real \<Rightarrow> real \<Rightarrow> real \<Rightarrow> real \<Rightarrow> real \<Rightarrow> real list" where
  "mat4_ortho lft rgt btm tp near far =
     (let lr = 1 / (lft - rgt); bt = 1 / (btm - tp); nf = 1 / (near - far)
      in [- 2 * lr, 0, 0, 0,
          0, - 2 * bt, 0, 0,
          0, 0, 2 * nf, 0,
          (lft + rgt) * lr, (tp + btm) * bt, (far + near) * nf, 1])"

subsection \<open>drawToExtrusionFramebuffer (lines 50 to 77)\<close>

text \<open>
  \<open>renderTarget\<close> and \<open>layer.viewportFrame\<close> are one object, so setting the depth attachment
  on line 69 shows in the layer's cached target.
\<close>

definition drawToExtrusionFramebuffer :: "Painter \<Rightarrow> Layer \<Rightarrow> Painter \<times> Layer" where
  "drawToExtrusionFramebuffer painter layer =
     (let p1 = (if depthRboNeedsClear painter then setupOffscreenDepthRenderbuffer painter
                else painter);
          (p2, renderTarget) =
            (case viewportFrame layer of
               Some rt \<Rightarrow> (p1, rt)
             | None \<Rightarrow>
                 (let texture = nextHandle p1;
                      fb = nextHandle p1 + 1
                  in (emit [NewTexture texture (width p1) (height p1) (RGBA (gl p1)),
                            TextureBind texture (LINEAR (gl p1)) (CLAMP_TO_EDGE (gl p1)),
                            CreateFramebuffer fb (width p1) (height p1),
                            ColorAttachmentSet fb texture]
                        (p1\<lparr>nextHandle := nextHandle p1 + 2\<rparr>),
                      \<lparr>framebuffer = fb, fbWidth = width p1, fbHeight = height p1,
                       colorAttachment = Some texture, depthAttachment = None\<rparr>)));
          p3 = emit [BindFramebufferSet (framebuffer renderTarget),
                     DepthAttachmentSet (framebuffer renderTarget) (depthRbo p2)] p2;
          renderTarget' = renderTarget\<lparr>depthAttachment := depthRbo p2\<rparr>;
          p4 = (if depthRboNeedsClear p3
                then (emit [ClearDepth 1] p3)\<lparr>depthRboNeedsClear := False\<rparr>
                else p3)
      in (emit [ClearColor transparent] p4, layer\<lparr>viewportFrame := Some renderTarget'\<rparr>))"

subsection \<open>drawExtrusionTexture (lines 79 to 105)\<close>

definition drawExtrusionTexture :: "Env \<Rightarrow> Painter \<Rightarrow> Layer \<Rightarrow> Painter" where
  "drawExtrusionTexture E painter layer =
     (case viewportFrame layer of
        None \<Rightarrow> painter
      | Some renderedTexture \<Rightarrow>
          (let (prog, p1) = useProgram E painter ''extrusionTexture'' None None;
               p2 = emit [SetStencilMode StencilDisabled, SetDepthMode DepthDisabled] p1;
               p3 = emit [SetColorMode (colorModeForRenderPass E p2)] p2
           in emit [ActiveTextureSet (TEXTURE0 (gl p3)),
                    BindTexture (TEXTURE_2D (gl p3)) (colorAttachment renderedTexture),
                    Uniform1f ''u_opacity'' (fill_extrusion_opacity (paint layer)),
                    Uniform1i ''u_image'' 0,
                    UniformMatrix4fv ''u_matrix'' False
                      (mat4_ortho 0 (width p3) (height p3) 0 0 1),
                    Uniform2f ''u_world'' (drawingBufferWidth (gl p3))
                      (drawingBufferHeight (gl p3)),
                    VaoBind (program prog),
                    DrawArrays (TRIANGLE_STRIP (gl p3)) 0 4] p3))"

subsection \<open>drawExtrusion (lines 107 to 178)\<close>

text \<open>Lines 131 to 139: the light's position, rotated when the light is anchored to the viewport.\<close>

definition lightPos :: "Light \<Rightarrow> real \<Rightarrow> vec3" where
  "lightPos lt transformAngle =
     (let lightMat = (if anchor lt = ''viewport'' then mat3_fromRotation (- transformAngle)
                      else mat3_create)
      in vec3_transformMat3 (position lt) lightMat)"

text \<open>Lines 143 to 153: the uniforms set for every tile.\<close>

definition lightUniforms :: "Light \<Rightarrow> real \<Rightarrow> (string \<times> uniformValue) list" where
  "lightUniforms lt transformAngle =
     [(''u_lightpos'', UVec3 (lightPos lt transformAngle)),
      (''u_lightintensity'', UFloat (intensity lt)),
      (''u_lightcolor'', (case color lt of (r, g, b, a) \<Rightarrow> UVec3 (r, g, b)))]"

text \<open>Line 159.\<close>

definition u_height_factor :: "OverscaledTileID \<Rightarrow> Tile \<Rightarrow> real" where
  "u_height_factor coord tile = - (2 ^ overscaledZ coord) / tileSize tile / 8"

text \<open>
  An object literal with spreads: the properties are assigned from left to right, a later
  one replacing the value of an earlier one with the same name.
\<close>

definition objectAssign :: "(string \<times> uniformValue) list \<Rightarrow> (string \<times> uniformValue) list \<Rightarrow> (string \<times> uniformValue) list" where
  "objectAssign obj kvs = foldl (\<lambda>ob kv. AList.update (fst kv) (snd kv) ob) obj kvs"

text \<open>
  The function itself. Lines 111 and 112 ask the pattern module whether the image is missing
  and return without any other call when it is; the query is made on the painter as it is
  at that moment and is recorded in the trace. Line 118 reads \<open>fillExtrusionPatternUniforms\<close>
  only when the layer has a pattern.
\<close>

definition drawExtrusion ::
  "Env \<Rightarrow> Painter \<Rightarrow> Layer \<Rightarrow> Tile \<Rightarrow> OverscaledTileID \<Rightarrow> Bucket \<Rightarrow> bool \<Rightarrow>
   DepthMode \<Rightarrow> StencilMode \<Rightarrow> ColorMode \<Rightarrow> jsError + Painter" where
  "drawExtrusion E painter layer tile coord bucket first depthMode stencilMode colorMode =
     (let image = fill_extrusion_pattern (paint layer);
          (missing, p0) =
            (case image of
               None \<Rightarrow> (False, painter)
             | Some im \<Rightarrow> (isPatternMissing E im painter, emit [IsPatternMissing im] painter))
      in if missing then Inr p0
         else
           (let prevProgram = context_program p0;
                programConfiguration = programConfigurations bucket (layerId layer)
            in case (case image of
                       None \<Rightarrow> Some (fillExtrusionUniforms E)
                     | Some im \<Rightarrow> fillExtrusionPatternUniforms E) of
                 None \<Rightarrow> Inl (ReferenceError ''fillExtrusionPatternUniforms'')
               | Some uniformBindings \<Rightarrow>
                   (let (prog, p1) =
                          useProgram E p0
                            (if image \<noteq> None then ''fillExtrusionPattern'' else ''fillExtrusion'')
                            (Some programConfiguration) (Some uniformBindings);
                        p2 = (if first \<or> Some (program prog) \<noteq> prevProgram
                              then emit [SetUniforms programConfiguration (program prog) (zoom p1)] p1
                              else p1);
                        p3 = emit [BoundUniformsSet (program prog)
                                     ((''u_matrix'',
                                       UMatrix (translatePosMatrix E p2 (posMatrix coord) tile
                                                  (fill_extrusion_translate (paint layer))
                                                  (fill_extrusion_translate_anchor (paint layer))))
                                      # lightUniforms (light p2) (angle p2))] p2;
                        p4 = (case image of
                                None \<Rightarrow> p3
                              | Some im \<Rightarrow>
                                  (let prepared = patternPrepare E im p3 prog;
                                       p3a = emit [PatternPrepare im] p3;
                                       tiled = patternSetTile E tile p3a prog;
                                       p3b = emit [PatternSetTile (key coord)] p3a
                                   in emit [BoundUniformsSet (program prog)
                                              (objectAssign []
                                                 (prepared @ tiled @
                                                  [(''u_height_factor'',
                                                    UFloat (u_height_factor coord tile))]))] p3b))
                    in Inr (emit [ProgramDraw (program prog) (TRIANGLES (gl p4)) depthMode stencilMode
                                    colorMode (layerId layer) (layoutVertexBuffer bucket)
                                    (indexBuffer bucket) (segments bucket) (zoom p4)
                                    programConfiguration] p4))))"

subsection \<open>draw (lines 24 to 48)\<close>

text \<open>
  The loop of lines 32 to 44, with \<open>first\<close> as an argument. \<open>source.getTile\<close> is the
  function \<open>source\<close>.
\<close>

fun drawTiles ::
  "Env \<Rightarrow> (OverscaledTileID \<Rightarrow> Tile) \<Rightarrow> Layer \<Rightarrow> bool \<Rightarrow> Painter \<Rightarrow> OverscaledTileID list \<Rightarrow>
   jsError + Painter" where
  "drawTiles E source layer first painter [] = Inr painter"
| "drawTiles E source layer first painter (coord # coords) =
     (let tile = source coord
      in case buckets tile (layerId layer) of
           None \<Rightarrow> drawTiles E source layer first painter coords
         | Some bucket \<Rightarrow>
             (case free_gl E of
                None \<Rightarrow> Inl (ReferenceError ''gl'')
              | Some g \<Rightarrow>
                  (let depthMode = DepthMode (LEQUAL g) ReadWrite (0, 1);
                       stencilMode = StencilDisabled;
                       colorMode = colorModeForRenderPass E painter
                   in case drawExtrusion E painter layer tile coord bucket first
                             depthMode stencilMode colorMode of
                        Inl e \<Rightarrow> Inl e
                      | Inr painter' \<Rightarrow> drawTiles E source layer False painter' coords)))"

definition draw ::
  "Env \<Rightarrow> Painter \<Rightarrow> (OverscaledTileID \<Rightarrow> Tile) \<Rightarrow> Layer \<Rightarrow> OverscaledTileID list \<Rightarrow>
   jsError + Painter \<times> Layer" where
  "draw E painter source layer coords =
     (if fill_extrusion_opacity (paint layer) = 0 then Inr (painter, layer)
      else if renderPass painter = ''offscreen'' then
        (case drawToExtrusionFramebuffer painter layer of
           (p1, layer1) \<Rightarrow>
             (case drawTiles E source layer1 True p1 coords of
                Inl e \<Rightarrow> Inl e
              | Inr p2 \<Rightarrow> Inr (p2, layer1)))
      else if renderPass painter = ''translucent'' then
        Inr (drawExtrusionTexture E painter layer, layer)
      else Inr (painter, layer))"

subsection \<open>Observations\<close>

text \<open>
  The configuration and the program that \<open>drawExtrusion\<close> resolves for a bucket (lines 115
  to 118), and those of the tiles of a pass that have a bucket, in input order.
\<close>

definition resolved :: "Env \<Rightarrow> Layer \<Rightarrow> Bucket \<Rightarrow> nat \<times> nat" where
  "resolved E layer bucket =
     (let image = fill_extrusion_pattern (paint layer);
          cfg = programConfigurations bucket (layerId layer)
      in (cfg,
          program (resolveProgram E
            (if image \<noteq> None then ''fillExtrusionPattern'' else ''fillExtrusion'')
            (Some cfg)
            (case image of None \<Rightarrow> Some (fillExtrusionUniforms E)
             | Some im \<Rightarrow> fillExtrusionPatternUniforms E))))"

definition resolvedTiles ::
  "Env \<Rightarrow> (OverscaledTileID \<Rightarrow> Tile) \<Rightarrow> Layer \<Rightarrow> OverscaledTileID list \<Rightarrow> (nat \<times> nat) list" where
  "resolvedTiles E source layer coords =
     map (resolved E layer) (List.map_filter (\<lambda>c. buckets (source c) (layerId layer)) coords)"

text \<open>The program-constant uniform uploads in a trace: configuration and program of each \<open>setUniforms\<close>.\<close>

fun uploadOf :: "glCall \<Rightarrow> (nat \<times> nat) option" where
  "uploadOf (SetUniforms cfg prog z) = Some (cfg, prog)"
| "uploadOf _ = None"

definition uploads :: "glCall list \<Rightarrow> (nat \<times> nat) list" where
  "uploads cs = List.map_filter uploadOf cs"

text \<open>The draw calls in a trace: \<open>gl.drawArrays\<close> and \<open>program._draw\<close>.\<close>

fun isDrawCall :: "glCall \<Rightarrow> bool" where
  "isDrawCall (DrawArrays m a n) = True"
| "isDrawCall (ProgramDraw pr m d s c lid vb ib sg z cfg) = True"
| "isDrawCall _ = False"

definition drawCalls :: "glCall list \<Rightarrow> glCall list" where
  "drawCalls cs = filter isDrawCall cs"

text \<open>The depth, stencil and colour modes of the \<open>program._draw\<close> calls in a trace.\<close>

fun drawModesOf :: "glCall \<Rightarrow> (DepthMode \<times> StencilMode \<times> ColorMode) option" where
  "drawModesOf (ProgramDraw pr m d s c lid vb ib sg z cfg) = Some (d, s, c)"
| "drawModesOf _ = None"

definition drawModes :: "glCall list \<Rightarrow> (DepthMode \<times> StencilMode \<times> ColorMode) list" where
  "drawModes cs = List.map_filter drawModesOf cs"

text \<open>The vertex buffers of the \<open>program._draw\<close> calls in a trace: they tell which buckets were drawn.\<close>

fun vertexBufferOf :: "glCall \<Rightarrow> nat option" where
  "vertexBufferOf (ProgramDraw pr m d s c lid vb ib sg z cfg) = Some vb"
| "vertexBufferOf _ = None"

definition drawnVertexBuffers :: "glCall list \<Rightarrow> nat list" where
  "drawnVertexBuffers cs = List.map_filter vertexBufferOf cs"

text \<open>The number of residency queries for an image in a trace.\<close>

definition patternQueries :: "image \<Rightarrow> glCall list \<Rightarrow> nat" where
  "patternQueries im cs = length (filter (\<lambda>c. c = IsPatternMissing im) cs)"

text \<open>The allocations in a trace: \<open>new Texture\<close> and \<open>context.createFramebuffer\<close>.\<close>

fun isAllocation :: "glCall \<Rightarrow> bool" where
  "isAllocation (NewTexture h w ht f) = True"
| "isAllocation (CreateFramebuffer h w ht) = True"
| "isAllocation _ = False"

definition allocations :: "glCall list \<Rightarrow> glCall list" where
  "allocations cs = filter isAllocation cs"

text \<open>The depth clears in a trace.\<close>

fun isDepthClear :: "glCall \<Rightarrow> bool" where
  "isDepthClear (ClearDepth d) = True"
| "isDepthClear _ = False"

definition depthClears :: "Painter \<Rightarrow> nat" where
  "depthClears p = length (filter isDepthClear (trace p))"

text \<open>The values that the calls of a trace assign to the uniform of a given name, in order.\<close>

fun assignedBy :: "string \<Rightarrow> glCall \<Rightarrow> uniformValue option" where
  "assignedBy name (BoundUniformsSet pr kvs) = map_of kvs name"
| "assignedBy name (Uniform1f n v) = (if n = name then Some (UFloat v) else None)"
| "assignedBy name _ = None"

definition assigned :: "string \<Rightarrow> glCall list \<Rightarrow> uniformValue list" where
  "assigned name cs = List.map_filter (assignedBy name) cs"

subsection \<open>A frame with several layers\<close>

text \<open>
  A frame prepares the offscreen target of one layer after the other with the same painter.
  \<open>prepareEach\<close> lists the painter after each of these calls.
\<close>

fun prepareEach :: "Painter \<Rightarrow> Layer list \<Rightarrow> Painter list" where
  "prepareEach p [] = []"
| "prepareEach p (l # ls) =
     (let p' = fst (drawToExtrusionFramebuffer p l) in p' # prepareEach p' ls)"

text \<open>The number of places where a list of flag values goes from true to false.\<close>

fun transitions :: "bool list \<Rightarrow> nat" where
  "transitions (a # b # bs) = (if a \<and> \<not> b then 1 else 0) + transitions (b # bs)"
| "transitions _ = 0"

subsection \<open>The specification's words\<close>

text \<open>
  The uploads that the specification asks for: a tile's program-constant uniforms are
  uploaded when the tile is the first of the pass or its program differs from the previous
  one, and the previous program becomes the tile's program.
\<close>

fun expectedUploads :: "bool \<Rightarrow> nat option \<Rightarrow> (nat \<times> nat) list \<Rightarrow> (nat \<times> nat) list" where
  "expectedUploads isFirstInPass previousProgram [] = []"
| "expectedUploads isFirstInPass previousProgram ((cfg, prog) # rest) =
     (if isFirstInPass \<or> Some prog \<noteq> previousProgram then [(cfg, prog)] else []) @
     expectedUploads False (Some prog) rest"

text \<open>A vector rotated by an angle about the vertical axis.\<close>

definition rotateAboutVertical :: "real \<Rightarrow> vec3 \<Rightarrow> vec3" where
  "rotateAboutVertical theta v =
     (case v of (x, y, z) \<Rightarrow> (x * cos theta - y * sin theta, x * sin theta + y * cos theta, z))"

subsection \<open>Concrete inputs\<close>

definition exampleGl :: WebGLRenderingContext where
  "exampleGl = \<lparr>LEQUAL = 515, RGBA = 6408, LINEAR = 9729, CLAMP_TO_EDGE = 33071,
     TEXTURE0 = 33984, TEXTURE_2D = 3553, TRIANGLE_STRIP = 5, TRIANGLES = 4,
     drawingBufferWidth = 800, drawingBufferHeight = 600\<rparr>"

definition exampleLight :: Light where
  "exampleLight = \<lparr>position = (1, 0, 3), anchor = ''viewport'', color = (1, 1, 1, 1),
     intensity = 1 / 2\<rparr>"

definition examplePainter :: Painter where
  "examplePainter = \<lparr>renderPass = ''offscreen'', depthRboNeedsClear = True, width = 800,
     height = 600, depthRbo = Some 1, gl = exampleGl, context_program = None, zoom = 15,
     angle = pi / 2, light = exampleLight, nextHandle = 10, trace = []\<rparr>"

text \<open>
  An environment whose scope binds both free identifiers, in which the pattern is resident
  and the program of a tile is decided by its configuration: configuration 3 gives program
  8, every other one program 7.
\<close>

definition exampleEnv :: Env where
  "exampleEnv = \<lparr>free_gl = Some exampleGl, fillExtrusionUniforms = 1,
     fillExtrusionPatternUniforms = Some 2,
     isPatternMissing = (\<lambda>im p. False),
     resolveProgram = (\<lambda>name cfg ub. \<lparr>program = (if cfg = Some 3 then 8 else 7)\<rparr>),
     colorModeForRenderPass = (\<lambda>p. ColorMode 1),
     translatePosMatrix = (\<lambda>p m t tr a. m),
     patternPrepare = (\<lambda>im p pr. []),
     patternSetTile = (\<lambda>t p pr. [])\<rparr>"

text \<open>
  The same environment with the scope of the file as it stands: nothing binds \<open>gl\<close> for
  \<open>draw\<close>, and nothing binds \<open>fillExtrusionPatternUniforms\<close>.
\<close>

definition unboundEnv :: Env where
  "unboundEnv = exampleEnv\<lparr>free_gl := None, fillExtrusionPatternUniforms := None\<rparr>"

text \<open>The tile with key 0 has no bucket; the bucket of any other tile has its key as configuration.\<close>

definition exampleSource :: "OverscaledTileID \<Rightarrow> Tile" where
  "exampleSource c = \<lparr>tileSize = 512,
     buckets = (\<lambda>lid. if key c = 0 then None
                else Some \<lparr>programConfigurations = (\<lambda>l. key c),
                           layoutVertexBuffer = 100 + key c, indexBuffer = 200 + key c,
                           segments = 300 + key c\<rparr>)\<rparr>"

definition exampleCoord :: "nat \<Rightarrow> OverscaledTileID" where
  "exampleCoord k = \<lparr>overscaledZ = 2, posMatrix = [], key = k\<rparr>"

definition examplePaint :: Paint where
  "examplePaint = \<lparr>fill_extrusion_opacity = 1, fill_extrusion_pattern = None,
     fill_extrusion_translate = (0, 0), fill_extrusion_translate_anchor = ''map''\<rparr>"

definition exampleLayer :: Layer where
  "exampleLayer = \<lparr>layerId = ''buildings'', paint = examplePaint, viewportFrame = None\<rparr>"

definition examplePatternLayer :: Layer where
  "examplePatternLayer =
     exampleLayer\<lparr>paint := examplePaint\<lparr>fill_extrusion_pattern := Some (CrossFaded ''a'' ''b'')\<rparr>\<rparr>"

definition exampleBucket :: Bucket where
  "exampleBucket = \<lparr>programConfigurations = (\<lambda>l. 1), layoutVertexBuffer = 101,
     indexBuffer = 201, segments = 301\<rparr>"

definition exampleTarget :: RenderTarget where
  "exampleTarget = \<lparr>framebuffer = 5, fbWidth = 400, fbHeight = 300, colorAttachment = Some 4,
     depthAttachment = None\<rparr>"

section \<open>Lemmas\<close>

subsection \<open>Traces and fields\<close>

lemma trace_emit [simp]: "trace (emit cs p) = trace p @ cs"
  by (simp add: emit_def)

lemma emit_fields [simp]:
  "renderPass (emit cs p) = renderPass p"
  "depthRboNeedsClear (emit cs p) = depthRboNeedsClear p"
  "width (emit cs p) = width p"
  "height (emit cs p) = height p"
  "depthRbo (emit cs p) = depthRbo p"
  "gl (emit cs p) = gl p"
  "context_program (emit cs p) = context_program p"
  "zoom (emit cs p) = zoom p"
  "angle (emit cs p) = angle p"
  "light (emit cs p) = light p"
  "nextHandle (emit cs p) = nextHandle p"
  by (simp_all add: emit_def)

lemma uploads_append [simp]: "uploads (xs @ ys) = uploads xs @ uploads ys"
  by (simp add: uploads_def map_filter_def)

lemma uploads_Nil [simp]: "uploads [] = []"
  by (simp add: uploads_def map_filter_def)

lemma uploads_Cons [simp]: "uploads (c # cs) = (case uploadOf c of None \<Rightarrow> uploads cs | Some u \<Rightarrow> u # uploads cs)"
  by (simp add: uploads_def map_filter_def split: option.splits)

lemma drawExtrusion_skip:
  "fill_extrusion_pattern (paint layer) = Some im \<Longrightarrow> isPatternMissing E im painter \<Longrightarrow>
   drawExtrusion E painter layer tile coord bucket first dm sm cm =
     Inr (emit [IsPatternMissing im] painter)"
  by (simp add: drawExtrusion_def)

lemma drawExtrusion_uploads:
  assumes "case fill_extrusion_pattern (paint layer) of None \<Rightarrow> True
           | Some im \<Rightarrow> \<not> isPatternMissing E im painter \<and> fillExtrusionPatternUniforms E \<noteq> None"
  shows "\<exists>p'. drawExtrusion E painter layer tile coord bucket first dm sm cm = Inr p' \<and>
           context_program p' = Some (snd (resolved E layer bucket)) \<and>
           uploads (trace p') = uploads (trace painter) @
             expectedUploads first (context_program painter) [resolved E layer bucket]"
  using assms
  by (auto simp add: drawExtrusion_def resolved_def useProgram_def Let_def split: option.splits)

lemma resolvedTiles_Nil [simp]: "resolvedTiles E source layer [] = []"
  by (simp add: resolvedTiles_def map_filter_def)

lemma resolvedTiles_Cons:
  "resolvedTiles E source layer (c # cs) =
     (case buckets (source c) (layerId layer) of
        None \<Rightarrow> resolvedTiles E source layer cs
      | Some b \<Rightarrow> resolved E layer b # resolvedTiles E source layer cs)"
  by (simp add: resolvedTiles_def map_filter_def split: option.splits)

lemma expectedUploads_one:
  "expectedUploads f prev (x # rest) =
     expectedUploads f prev [x] @ expectedUploads False (Some (snd x)) rest"
  by (cases x) simp

lemma drawTiles_uploads:
  assumes gl: "free_gl E = Some g"
    and res: "case fill_extrusion_pattern (paint layer) of None \<Rightarrow> True
           | Some im \<Rightarrow> (\<forall>q. \<not> isPatternMissing E im q) \<and> fillExtrusionPatternUniforms E \<noteq> None"
  shows "\<exists>p'. drawTiles E source layer first p coords = Inr p' \<and>
           uploads (trace p') = uploads (trace p) @
             expectedUploads first (context_program p) (resolvedTiles E source layer coords)"
proof (induction coords arbitrary: first p)
  case Nil
  show ?case by simp
next
  case (Cons c cs)
  show ?case
  proof (cases "buckets (source c) (layerId layer)")
    case None
    with Cons.IH [of first p] show ?thesis
      by (simp add: resolvedTiles_Cons)
  next
    case (Some b)
    let ?dm = "DepthMode (LEQUAL g) ReadWrite (0, 1)"
    let ?cm = "colorModeForRenderPass E p"
    have ok: "case fill_extrusion_pattern (paint layer) of None \<Rightarrow> True
           | Some im \<Rightarrow> \<not> isPatternMissing E im p \<and> fillExtrusionPatternUniforms E \<noteq> None"
      using res by (simp split: option.splits)
    from drawExtrusion_uploads [OF ok, of "source c" c b first ?dm StencilDisabled ?cm]
    obtain p1 where run: "drawExtrusion E p layer (source c) c b first ?dm StencilDisabled ?cm = Inr p1"
      and prog: "context_program p1 = Some (snd (resolved E layer b))"
      and up: "uploads (trace p1) = uploads (trace p) @
             expectedUploads first (context_program p) [resolved E layer b]"
      by blast
    from Cons.IH [of False p1] obtain p' where
      rest: "drawTiles E source layer False p1 cs = Inr p'"
      and up': "uploads (trace p') = uploads (trace p1) @
             expectedUploads False (context_program p1) (resolvedTiles E source layer cs)"
      by blast
    have "drawTiles E source layer first p (c # cs) = Inr p'"
      using Some gl run rest by simp
    moreover have "uploads (trace p') = uploads (trace p) @
        expectedUploads first (context_program p) (resolvedTiles E source layer (c # cs))"
      using up up' prog Some
      by (simp add: resolvedTiles_Cons expectedUploads_one [of first _ _ "resolvedTiles E source layer cs"])
    ultimately show ?thesis by blast
  qed
qed

lemma prepare_layer [simp]:
  "paint (snd (drawToExtrusionFramebuffer p l)) = paint l"
  "layerId (snd (drawToExtrusionFramebuffer p l)) = layerId l"
  by (cases "viewportFrame l"; simp add: drawToExtrusionFramebuffer_def Let_def)+

lemma prepare_program [simp]:
  "context_program (fst (drawToExtrusionFramebuffer p l)) = context_program p"
  by (cases "viewportFrame l"; simp add: drawToExtrusionFramebuffer_def Let_def setupOffscreenDepthRenderbuffer_def)

lemma prepare_uploads [simp]:
  "uploads (trace (fst (drawToExtrusionFramebuffer p l))) = uploads (trace p)"
  by (cases "viewportFrame l"; simp add: drawToExtrusionFramebuffer_def Let_def setupOffscreenDepthRenderbuffer_def)

lemma resolvedTiles_cong:
  "paint l' = paint l \<Longrightarrow> layerId l' = layerId l \<Longrightarrow>
   resolvedTiles E source l' coords = resolvedTiles E source l coords"
  by (simp add: resolvedTiles_def resolved_def)

lemma expectedUploads_shape:
  "map snd xs = [A, A, B, A] \<Longrightarrow> \<exists>a b c d. xs = [(a, A), (b, A), (c, B), (d, A)]"
  by (clarsimp simp add: map_eq_Cons_conv)

lemma expectedUploads_AABA:
  "A \<noteq> B \<Longrightarrow> map snd xs = [A, A, B, A] \<Longrightarrow> length (expectedUploads True prev xs) = 3"
  using expectedUploads_shape [of xs A B] by auto


subsection \<open>The free identifiers\<close>

text \<open>
  Nothing in the file binds \<open>gl\<close> for \<open>draw\<close> or \<open>fillExtrusionPatternUniforms\<close>. In such a
  scope the offscreen pass stops with a ReferenceError at the first tile that has a bucket,
  before \<open>drawExtrusion\<close> is called for it, and a patterned draw stops before it resolves its
  program.
\<close>

lemma unbound_gl_raises:
  "free_gl E = None \<Longrightarrow> buckets (source coord) (layerId layer) = Some bucket \<Longrightarrow>
   drawTiles E source layer first painter (coord # coords) = Inl (ReferenceError ''gl'')"
  by simp

lemma unbound_pattern_uniforms_raise:
  "fill_extrusion_pattern (paint layer) = Some im \<Longrightarrow> \<not> isPatternMissing E im painter \<Longrightarrow>
   fillExtrusionPatternUniforms E = None \<Longrightarrow>
   drawExtrusion E painter layer tile coord bucket first dm sm cm =
     Inl (ReferenceError ''fillExtrusionPatternUniforms'')"
  by (simp add: drawExtrusion_def)

lemma drawTiles_unbound_gl:
  assumes "free_gl E = None"
  shows "\<exists>c \<in> set coords. buckets (source c) (layerId layer) \<noteq> None \<Longrightarrow>
         drawTiles E source layer first painter coords = Inl (ReferenceError ''gl'')"
proof (induction coords)
  case Nil
  then show ?case by simp
next
  case (Cons c cs)
  show ?case
  proof (cases "buckets (source c) (layerId layer)")
    case None
    with Cons show ?thesis by simp
  next
    case (Some b)
    with assms show ?thesis by simp
  qed
qed

lemma draw_unbound_gl:
  assumes "free_gl E = None"
    and "fill_extrusion_opacity (paint layer) \<noteq> 0"
    and "renderPass painter = ''offscreen''"
    and "\<exists>c \<in> set coords. buckets (source c) (layerId layer) \<noteq> None"
  shows "draw E painter source layer coords = Inl (ReferenceError ''gl'')"
proof -
  obtain p1 l1 where prep: "drawToExtrusionFramebuffer painter layer = (p1, l1)"
    by (cases "drawToExtrusionFramebuffer painter layer")
  have "layerId l1 = layerId layer"
    using prepare_layer(2) [of painter layer] by (simp add: prep)
  with assms(4) have "\<exists>c \<in> set coords. buckets (source c) (layerId l1) \<noteq> None"
    by simp
  from drawTiles_unbound_gl [OF assms(1) this]
  have "drawTiles E source l1 True p1 coords = Inl (ReferenceError ''gl'')" .
  with assms(2,3) show ?thesis
    by (simp add: draw_def prep del: drawTiles.simps)
qed

lemma draw_without_buckets:
  assumes "fill_extrusion_opacity (paint layer) \<noteq> 0"
    and "renderPass painter = ''offscreen''"
    and "\<forall>c \<in> set coords. buckets (source c) (layerId layer) = None"
  shows "draw E painter source layer coords = Inr (drawToExtrusionFramebuffer painter layer)"
proof -
  obtain p1 l1 where prep: "drawToExtrusionFramebuffer painter layer = (p1, l1)"
    by (cases "drawToExtrusionFramebuffer painter layer")
  have l1: "layerId l1 = layerId layer"
    using prepare_layer(2) [of painter layer] by (simp add: prep)
  have "drawTiles E source l1 first p1 coords = Inr p1" for first
    using assms(3) by (induction coords) (simp_all add: l1)
  with assms(1,2) show ?thesis
    by (simp add: draw_def prep del: drawTiles.simps)
qed

lemma draw_unbound_pattern_uniforms:
  assumes "free_gl E = Some g"
    and "fillExtrusionPatternUniforms E = None"
    and "fill_extrusion_pattern (paint layer) = Some im"
    and "fill_extrusion_opacity (paint layer) \<noteq> 0"
    and "renderPass painter = ''offscreen''"
    and "buckets (source coord) (layerId layer) = Some bucket"
    and "\<not> isPatternMissing E im (fst (drawToExtrusionFramebuffer painter layer))"
  shows "draw E painter source layer (coord # coords) =
     Inl (ReferenceError ''fillExtrusionPatternUniforms'')"
proof -
  obtain p1 l1 where prep: "drawToExtrusionFramebuffer painter layer = (p1, l1)"
    by (cases "drawToExtrusionFramebuffer painter layer")
  have l1: "layerId l1 = layerId layer" "paint l1 = paint layer"
    using prepare_layer [of painter layer] by (simp_all add: prep)
  have m: "\<not> isPatternMissing E im p1"
    using assms(7) by (simp add: prep)
  have im: "fill_extrusion_pattern (paint l1) = Some im"
    using assms(3) by (simp add: l1)
  have "drawTiles E source l1 True p1 (coord # coords) =
      Inl (ReferenceError ''fillExtrusionPatternUniforms'')"
    using assms(1,6) unbound_pattern_uniforms_raise [OF im m assms(2)]
    by (simp add: l1)
  with assms(4,5) show ?thesis
    by (simp add: draw_def prep del: drawTiles.simps)
qed

subsection \<open>The depth clear\<close>

lemma depthClears_emit [simp]:
  "depthClears (emit cs p) = depthClears p + length (filter isDepthClear cs)"
  by (simp add: depthClears_def)

lemma depthClears_update [simp]:
  "depthClears (p\<lparr>depthRboNeedsClear := b\<rparr>) = depthClears p"
  "depthClears (p\<lparr>nextHandle := n\<rparr>) = depthClears p"
  by (simp_all add: depthClears_def)

lemma prepare_flag [simp]:
  "depthRboNeedsClear (fst (drawToExtrusionFramebuffer p l)) = False"
  by (cases "viewportFrame l"; simp add: drawToExtrusionFramebuffer_def Let_def setupOffscreenDepthRenderbuffer_def)

lemma prepare_depthClears:
  "depthClears (fst (drawToExtrusionFramebuffer p l)) =
     depthClears p + (if depthRboNeedsClear p then 1 else 0)"
  by (cases "viewportFrame l"; simp add: drawToExtrusionFramebuffer_def Let_def setupOffscreenDepthRenderbuffer_def)

lemma prepareEach_unset:
  "\<not> depthRboNeedsClear p \<Longrightarrow>
   map depthRboNeedsClear (prepareEach p ls) = replicate (length ls) False \<and>
   map depthClears (prepareEach p ls) = replicate (length ls) (depthClears p)"
  by (induction ls arbitrary: p) (simp_all add: Let_def prepare_depthClears)

lemma transitions_False: "transitions (False # replicate n False) = 0"
  by (induction n) simp_all


subsection \<open>The cached target\<close>

lemma allocations_append [simp]: "allocations (xs @ ys) = allocations xs @ allocations ys"
  by (simp add: allocations_def)

lemma prepare_cached:
  "viewportFrame l = Some rt \<Longrightarrow>
   viewportFrame (snd (drawToExtrusionFramebuffer p l)) = Some (rt\<lparr>depthAttachment := depthRbo p\<rparr>) \<and>
   allocations (trace (fst (drawToExtrusionFramebuffer p l))) = allocations (trace p) \<and>
   nextHandle (fst (drawToExtrusionFramebuffer p l)) = nextHandle p"
  by (simp add: drawToExtrusionFramebuffer_def Let_def setupOffscreenDepthRenderbuffer_def allocations_def)

lemma prepare_fresh:
  "viewportFrame l = None \<Longrightarrow>
   viewportFrame (snd (drawToExtrusionFramebuffer p l)) =
     Some \<lparr>framebuffer = nextHandle p + 1, fbWidth = width p, fbHeight = height p,
           colorAttachment = Some (nextHandle p), depthAttachment = depthRbo p\<rparr> \<and>
   allocations (trace (fst (drawToExtrusionFramebuffer p l))) =
     allocations (trace p) @
       [NewTexture (nextHandle p) (width p) (height p) (RGBA (gl p)),
        CreateFramebuffer (nextHandle p + 1) (width p) (height p)] \<and>
   nextHandle (fst (drawToExtrusionFramebuffer p l)) = nextHandle p + 2"
  by (simp add: drawToExtrusionFramebuffer_def Let_def setupOffscreenDepthRenderbuffer_def allocations_def)

subsection \<open>The tile loop\<close>

lemma drawTiles_append:
  "drawTiles E source layer first painter (xs @ ys) =
     (case drawTiles E source layer first painter xs of
        Inl e \<Rightarrow> Inl e
      | Inr q \<Rightarrow> drawTiles E source layer
                  (first \<and> (\<forall>c \<in> set xs. buckets (source c) (layerId layer) = None)) q ys)"
  by (induction xs arbitrary: first painter) (auto simp add: Let_def split: option.splits sum.splits)

lemma drawModes_append [simp]: "drawModes (xs @ ys) = drawModes xs @ drawModes ys"
  by (simp add: drawModes_def map_filter_def)

lemma drawModes_Nil [simp]: "drawModes [] = []"
  by (simp add: drawModes_def map_filter_def)

lemma drawModes_Cons [simp]:
  "drawModes (c # cs) = (case drawModesOf c of None \<Rightarrow> drawModes cs | Some m \<Rightarrow> m # drawModes cs)"
  by (simp add: drawModes_def map_filter_def split: option.splits)

lemma drawnVertexBuffers_append [simp]:
  "drawnVertexBuffers (xs @ ys) = drawnVertexBuffers xs @ drawnVertexBuffers ys"
  by (simp add: drawnVertexBuffers_def map_filter_def)

lemma drawnVertexBuffers_Nil [simp]: "drawnVertexBuffers [] = []"
  by (simp add: drawnVertexBuffers_def map_filter_def)

lemma drawnVertexBuffers_Cons [simp]:
  "drawnVertexBuffers (c # cs) =
     (case vertexBufferOf c of None \<Rightarrow> drawnVertexBuffers cs | Some v \<Rightarrow> v # drawnVertexBuffers cs)"
  by (simp add: drawnVertexBuffers_def map_filter_def split: option.splits)

lemma patternQueries_append [simp]:
  "patternQueries im (xs @ ys) = patternQueries im xs + patternQueries im ys"
  by (simp add: patternQueries_def)

lemma patternQueries_Nil [simp]: "patternQueries im [] = 0"
  by (simp add: patternQueries_def)

lemma patternQueries_Cons [simp]:
  "patternQueries im (c # cs) = (if c = IsPatternMissing im then 1 else 0) + patternQueries im cs"
  by (simp add: patternQueries_def)

lemma prepare_queries [simp]:
  "patternQueries im (trace (fst (drawToExtrusionFramebuffer p l))) = patternQueries im (trace p)"
  by (cases "viewportFrame l"; simp add: drawToExtrusionFramebuffer_def Let_def setupOffscreenDepthRenderbuffer_def)

lemma drawExtrusion_drawn:
  assumes "fill_extrusion_pattern (paint layer) = Some im"
    and "\<not> isPatternMissing E im painter"
    and "fillExtrusionPatternUniforms E = Some u"
  shows "\<exists>q. drawExtrusion E painter layer tile coord bucket first dm sm cm = Inr q \<and>
           drawnVertexBuffers (trace q) =
             drawnVertexBuffers (trace painter) @ [layoutVertexBuffer bucket]"
  using assms by (simp add: drawExtrusion_def useProgram_def Let_def)

lemma length_filter_neq_upt:
  "length (filter (\<lambda>i. i \<noteq> k) [0..<n]) = (if k < n then n - 1 else n)"
  by (induction n) auto

lemma drawTiles_prefix:
  assumes gl: "free_gl E = Some g"
    and pat: "fill_extrusion_pattern (paint layer) = Some im"
    and bound: "fillExtrusionPatternUniforms E = Some u"
    and bucketed: "\<forall>c \<in> set coords. buckets (source c) (layerId layer) \<noteq> None"
    and only: "\<forall>i < length coords. \<forall>q.
        drawTiles E source layer True painter (take i coords) = Inr q \<longrightarrow>
        isPatternMissing E im q = (i = k)"
  shows "n \<le> length coords \<Longrightarrow>
         \<exists>q. drawTiles E source layer True painter (take n coords) = Inr q \<and>
           drawnVertexBuffers (trace q) = drawnVertexBuffers (trace painter) @
             map (\<lambda>i. layoutVertexBuffer (the (buckets (source (coords ! i)) (layerId layer))))
               (filter (\<lambda>i. i \<noteq> k) [0..<n])"
proof (induction n)
  case 0
  show ?case by simp
next
  case (Suc n)
  then have n: "n < length coords" by simp
  with Suc.IH obtain q where run: "drawTiles E source layer True painter (take n coords) = Inr q"
    and dr: "drawnVertexBuffers (trace q) = drawnVertexBuffers (trace painter) @
             map (\<lambda>i. layoutVertexBuffer (the (buckets (source (coords ! i)) (layerId layer))))
               (filter (\<lambda>i. i \<noteq> k) [0..<n])"
    by auto
  let ?c = "coords ! n"
  let ?dm = "DepthMode (LEQUAL g) ReadWrite (0, 1)"
  let ?cm = "colorModeForRenderPass E q"
  obtain b where b: "buckets (source ?c) (layerId layer) = Some b"
    using bucketed nth_mem [OF n] by fastforce
  have miss: "isPatternMissing E im q = (n = k)"
    using only n run by blast
  obtain f where step: "drawTiles E source layer True painter (take (Suc n) coords) =
      drawTiles E source layer f q [?c]"
    using run by (simp add: take_Suc_conv_app_nth [OF n] drawTiles_append del: drawTiles.simps)
  show ?case
  proof (cases "n = k")
    case True
    with miss have "drawExtrusion E q layer (source ?c) ?c b f ?dm StencilDisabled ?cm =
        Inr (emit [IsPatternMissing im] q)"
      by (simp add: drawExtrusion_skip [OF pat])
    with b gl have "drawTiles E source layer f q [?c] = Inr (emit [IsPatternMissing im] q)"
      by simp
    with step dr True show ?thesis by simp
  next
    case False
    with miss have "\<not> isPatternMissing E im q" by simp
    from drawExtrusion_drawn [OF pat this bound, of "source ?c" ?c b f ?dm StencilDisabled ?cm]
    obtain q' where one: "drawExtrusion E q layer (source ?c) ?c b f ?dm StencilDisabled ?cm = Inr q'"
      and dr': "drawnVertexBuffers (trace q') = drawnVertexBuffers (trace q) @ [layoutVertexBuffer b]"
      by blast
    from one b gl have "drawTiles E source layer f q [?c] = Inr q'"
      by simp
    with step dr dr' b False show ?thesis by simp
  qed
qed

lemma drawCalls_append [simp]: "drawCalls (xs @ ys) = drawCalls xs @ drawCalls ys"
  by (simp add: drawCalls_def)

subsection \<open>Uniform values\<close>

lemma objectAssign_last:
  "map_of (objectAssign obj (kvs @ [(k, v)])) k = Some v"
  by (simp add: objectAssign_def update_conv')

lemma assigned_append [simp]: "assigned n (xs @ ys) = assigned n xs @ assigned n ys"
  by (simp add: assigned_def map_filter_def)

lemma assigned_Nil [simp]: "assigned n [] = []"
  by (simp add: assigned_def map_filter_def)

lemma assigned_Cons [simp]:
  "assigned n (c # cs) = (case assignedBy n c of None \<Rightarrow> assigned n cs | Some v \<Rightarrow> v # assigned n cs)"
  by (simp add: assigned_def map_filter_def split: option.splits)

subsection \<open>The loop in a scope that binds the identifiers\<close>

text \<open>
  What the pass does where \<open>gl\<close> and \<open>fillExtrusionPatternUniforms\<close> are bound: the uploads
  follow the rule of first tile or changed program, a tile skipped for a missing image uses
  up \<open>first\<close> and the others are drawn, every draw carries the modes built on lines 38 to
  40, and a patterned draw sets the height factor of line 159.
\<close>

lemma bound_pass_uploads:
  assumes "fill_extrusion_opacity (paint layer) \<noteq> 0"
    and "renderPass painter = ''offscreen''"
    and "free_gl E = Some g"
    and "case fill_extrusion_pattern (paint layer) of None \<Rightarrow> True
           | Some im \<Rightarrow> (\<forall>q. \<not> isPatternMissing E im q) \<and> fillExtrusionPatternUniforms E \<noteq> None"
  shows "\<exists>p' l'. draw E painter source layer coords = Inr (p', l') \<and>
           uploads (trace p') = uploads (trace painter) @
             expectedUploads True (context_program painter) (resolvedTiles E source layer coords) \<and>
           (\<forall>A B. A \<noteq> B \<and> map snd (resolvedTiles E source layer coords) = [A, A, B, A] \<longrightarrow>
              length (uploads (trace p')) = length (uploads (trace painter)) + 3)"
proof -
  obtain p1 l1 where prep: "drawToExtrusionFramebuffer painter layer = (p1, l1)"
    by (cases "drawToExtrusionFramebuffer painter layer")
  have l1: "paint l1 = paint layer" "layerId l1 = layerId layer"
    using prepare_layer [of painter layer] prep by simp_all
  have p1: "context_program p1 = context_program painter" "uploads (trace p1) = uploads (trace painter)"
    using prepare_program [of painter layer] prepare_uploads [of painter layer] prep by simp_all
  have res1: "case fill_extrusion_pattern (paint l1) of None \<Rightarrow> True
           | Some im \<Rightarrow> (\<forall>q. \<not> isPatternMissing E im q) \<and> fillExtrusionPatternUniforms E \<noteq> None"
    using assms(4) l1 by simp
  from drawTiles_uploads [OF assms(3) res1, of source True p1 coords]
  obtain p' where run: "drawTiles E source l1 True p1 coords = Inr p'"
    and up: "uploads (trace p') = uploads (trace p1) @
             expectedUploads True (context_program p1) (resolvedTiles E source l1 coords)"
    by blast
  have d: "draw E painter source layer coords = Inr (p', l1)"
    using assms(1,2) prep run by (simp add: draw_def)
  have u: "uploads (trace p') = uploads (trace painter) @
             expectedUploads True (context_program painter) (resolvedTiles E source layer coords)"
    by (simp only: up p1 resolvedTiles_cong [OF l1])
  have "length (uploads (trace p')) = length (uploads (trace painter)) + 3"
    if "A \<noteq> B \<and> map snd (resolvedTiles E source layer coords) = [A, A, B, A]" for A B
  proof -
    from that have "length (expectedUploads True (context_program painter)
        (resolvedTiles E source layer coords)) = 3"
      by (intro expectedUploads_AABA [of A B]) simp_all
    then show ?thesis by (simp only: u length_append)
  qed
  with d u show ?thesis by blast
qed


lemma bound_skip_consumes_first:
  assumes "buckets (source coord) (layerId layer) = Some bucket"
    and "free_gl E = Some g"
    and "fill_extrusion_pattern (paint layer) = Some im"
    and "isPatternMissing E im painter"
  shows "drawTiles E source layer first painter (coord # coords) =
     drawTiles E source layer False (emit [IsPatternMissing im] painter) coords"
  using assms by (simp add: drawExtrusion_skip)

lemma bound_pass_skips_one_tile:
  assumes "free_gl E = Some g"
    and "fill_extrusion_pattern (paint layer) = Some im"
    and "fillExtrusionPatternUniforms E = Some u"
    and "\<forall>c \<in> set coords. buckets (source c) (layerId layer) \<noteq> None"
    and "k < length coords"
    and "\<forall>i < length coords. \<forall>q.
        drawTiles E source layer True painter (take i coords) = Inr q \<longrightarrow>
        isPatternMissing E im q = (i = k)"
  shows "\<exists>p'. drawTiles E source layer True painter coords = Inr p' \<and>
           drawnVertexBuffers (trace p') = drawnVertexBuffers (trace painter) @
             map (\<lambda>i. layoutVertexBuffer (the (buckets (source (coords ! i)) (layerId layer))))
               (filter (\<lambda>i. i \<noteq> k) [0..<length coords]) \<and>
           length (drawnVertexBuffers (trace p')) =
             length (drawnVertexBuffers (trace painter)) + (length coords - 1)"
proof -
  from drawTiles_prefix [OF assms(1,2,3,4,6), of "length coords"]
  obtain p' where run: "drawTiles E source layer True painter coords = Inr p'"
    and dr: "drawnVertexBuffers (trace p') = drawnVertexBuffers (trace painter) @
             map (\<lambda>i. layoutVertexBuffer (the (buckets (source (coords ! i)) (layerId layer))))
               (filter (\<lambda>i. i \<noteq> k) [0..<length coords])"
    by auto
  have "length (drawnVertexBuffers (trace p')) =
      length (drawnVertexBuffers (trace painter)) + (length coords - 1)"
    using assms(5) by (simp add: dr length_filter_neq_upt)
  with run dr show ?thesis by blast
qed


lemma drawExtrusion_draws:
  assumes "case fill_extrusion_pattern (paint layer) of None \<Rightarrow> True
           | Some im \<Rightarrow> \<not> isPatternMissing E im painter \<and> fillExtrusionPatternUniforms E \<noteq> None"
  shows "\<exists>p'. drawExtrusion E painter layer tile coord bucket first dm sm cm = Inr p' \<and>
           drawModes (trace p') = drawModes (trace painter) @ [(dm, sm, cm)] \<and>
           drawnVertexBuffers (trace p') =
             drawnVertexBuffers (trace painter) @ [layoutVertexBuffer bucket]"
  using assms
  by (cases "fill_extrusion_pattern (paint layer)")
    (auto simp add: drawExtrusion_def useProgram_def Let_def)

lemma bound_pass_draws:
  assumes gl: "free_gl E = Some g"
    and cm: "\<forall>q. colorModeForRenderPass E q = cm"
    and res: "case fill_extrusion_pattern (paint layer) of None \<Rightarrow> True
           | Some im \<Rightarrow> (\<forall>q. \<not> isPatternMissing E im q) \<and> fillExtrusionPatternUniforms E \<noteq> None"
  shows "\<exists>p'. drawTiles E source layer first painter coords = Inr p' \<and>
           drawModes (trace p') = drawModes (trace painter) @
             map (\<lambda>b. (DepthMode (LEQUAL g) ReadWrite (0, 1), StencilDisabled, cm))
               (List.map_filter (\<lambda>c. buckets (source c) (layerId layer)) coords) \<and>
           drawnVertexBuffers (trace p') = drawnVertexBuffers (trace painter) @
             map layoutVertexBuffer
               (List.map_filter (\<lambda>c. buckets (source c) (layerId layer)) coords)"
proof (induction coords arbitrary: first painter)
  case Nil
  show ?case by (simp add: map_filter_def)
next
  case (Cons c cs)
  let ?dm = "DepthMode (LEQUAL g) ReadWrite (0, 1)"
  show ?case
  proof (cases "buckets (source c) (layerId layer)")
    case None
    with Cons.IH [of first painter] show ?thesis by (simp add: map_filter_def)
  next
    case (Some b)
    have ok: "case fill_extrusion_pattern (paint layer) of None \<Rightarrow> True
           | Some im \<Rightarrow> \<not> isPatternMissing E im painter \<and> fillExtrusionPatternUniforms E \<noteq> None"
      using res by (simp split: option.splits)
    from drawExtrusion_draws [OF ok, of "source c" c b first ?dm StencilDisabled cm]
    obtain p1 where run: "drawExtrusion E painter layer (source c) c b first ?dm StencilDisabled cm = Inr p1"
      and m1: "drawModes (trace p1) = drawModes (trace painter) @ [(?dm, StencilDisabled, cm)]"
      and v1: "drawnVertexBuffers (trace p1) = drawnVertexBuffers (trace painter) @ [layoutVertexBuffer b]"
      by blast
    from Cons.IH [of False p1] obtain p' where
      rest: "drawTiles E source layer False p1 cs = Inr p'"
      and m2: "drawModes (trace p') = drawModes (trace p1) @
             map (\<lambda>b. (?dm, StencilDisabled, cm))
               (List.map_filter (\<lambda>c. buckets (source c) (layerId layer)) cs)"
      and v2: "drawnVertexBuffers (trace p') = drawnVertexBuffers (trace p1) @
             map layoutVertexBuffer
               (List.map_filter (\<lambda>c. buckets (source c) (layerId layer)) cs)"
      by blast
    have c: "colorModeForRenderPass E painter = cm" using cm by simp
    have "drawTiles E source layer first painter (c # cs) = Inr p'"
      using Some gl run rest c by simp
    with m1 m2 v1 v2 Some show ?thesis by (simp add: map_filter_def)
  qed
qed

lemma bound_patterned_draw_height_factor:
  assumes "fill_extrusion_pattern (paint layer) = Some im"
    and "\<not> isPatternMissing E im painter"
    and "fillExtrusionPatternUniforms E = Some u"
    and "0 < tileSize tile"
  shows "\<exists>p' cs. drawExtrusion E painter layer tile coord bucket first dm sm cm = Inr p' \<and>
           trace p' = trace painter @ cs \<and>
           assigned ''u_height_factor'' cs = [UFloat (- (2 ^ overscaledZ coord) / tileSize tile / 8)]"
  using assms
  by (simp add: drawExtrusion_def useProgram_def Let_def lightUniforms_def u_height_factor_def
      objectAssign_last [of "[]" "patternPrepare E im p3 prog @ patternSetTile E tile p3a prog" for p3 prog p3a, simplified])


section \<open>The claims\<close>

text \<open>
  C1 (what the file does). The rule of the claim, an upload for the first tile and for each
  change of program, asks for 3 uploads over tiles that resolve to the programs 7, 7, 8, 7.
  In the file's own scope the pass over these tiles stops with a ReferenceError for \<open>gl\<close>
  at its first tile, on line 38, before \<open>drawExtrusion\<close> is called: no upload is made. The
  painter that the preparation leaves, on which the loop starts, has no upload in its trace.
\<close>

theorem uploads_stopped_by_unbound_gl:
  "map snd (resolvedTiles unboundEnv exampleSource exampleLayer
     [exampleCoord 1, exampleCoord 2, exampleCoord 3, exampleCoord 4]) = [7, 7, 8, 7] \<and>
   length (expectedUploads True (context_program examplePainter)
     (resolvedTiles unboundEnv exampleSource exampleLayer
        [exampleCoord 1, exampleCoord 2, exampleCoord 3, exampleCoord 4])) = 3 \<and>
   uploads (trace (fst (drawToExtrusionFramebuffer examplePainter exampleLayer))) = [] \<and>
   draw unboundEnv examplePainter exampleSource exampleLayer
     [exampleCoord 1, exampleCoord 2, exampleCoord 3, exampleCoord 4] =
     Inl (ReferenceError ''gl'')"
proof -
  let ?cs = "[exampleCoord 1, exampleCoord 2, exampleCoord 3, exampleCoord 4]"
  have r: "resolvedTiles unboundEnv exampleSource exampleLayer ?cs =
      [(1, 7), (2, 7), (3, 8), (4, 7)]"
    by (simp add: resolvedTiles_def resolved_def map_filter_def unboundEnv_def exampleEnv_def
        exampleSource_def exampleLayer_def examplePaint_def exampleCoord_def)
  have u: "uploads (trace (fst (drawToExtrusionFramebuffer examplePainter exampleLayer))) = []"
    by (simp add: examplePainter_def)
  have g: "free_gl unboundEnv = None"
    by (simp add: unboundEnv_def)
  have o: "fill_extrusion_opacity (paint exampleLayer) \<noteq> 0"
    by (simp add: exampleLayer_def examplePaint_def)
  have p: "renderPass examplePainter = ''offscreen''"
    by (simp add: examplePainter_def)
  have b: "\<exists>c \<in> set ?cs. buckets (exampleSource c) (layerId exampleLayer) \<noteq> None"
    by (simp add: exampleSource_def exampleCoord_def)
  have d: "draw unboundEnv examplePainter exampleSource exampleLayer ?cs =
      Inl (ReferenceError ''gl'')"
    by (rule draw_unbound_gl [OF g o p b])
  have e: "length (expectedUploads True (context_program examplePainter)
      (resolvedTiles unboundEnv exampleSource exampleLayer ?cs)) = 3"
    by (simp only: r) simp
  have m: "map snd (resolvedTiles unboundEnv exampleSource exampleLayer ?cs) = [7, 7, 8, 7]"
    by (simp only: r) simp
  from m e u d show ?thesis by (intro conjI)
qed

text \<open>
  C2. In a frame that starts with the needs-clear flag set, the first preparation of an
  offscreen target clears the depth buffer and unsets the flag, and no later preparation,
  of whichever layer, clears it again: the flag goes from true to false once, and after
  each call the trace holds one depth clear more than at the start of the frame.
\<close>

theorem depth_cleared_once_per_frame:
  assumes "depthRboNeedsClear p" and "ls \<noteq> []"
  shows "transitions (depthRboNeedsClear p # map depthRboNeedsClear (prepareEach p ls)) = 1 \<and>
         map depthRboNeedsClear (prepareEach p ls) = replicate (length ls) False \<and>
         map depthClears (prepareEach p ls) = replicate (length ls) (depthClears p + 1)"
proof -
  from assms(2) obtain l rest where ls: "ls = l # rest" by (cases ls) auto
  let ?p1 = "fst (drawToExtrusionFramebuffer p l)"
  have f1: "\<not> depthRboNeedsClear ?p1" by simp
  have c1: "depthClears ?p1 = depthClears p + 1"
    using assms(1) by (simp add: prepare_depthClears)
  note rest = prepareEach_unset [OF f1, of rest]
  show ?thesis
    using assms(1) rest c1 by (simp add: ls Let_def transitions_False)
qed

theorem depth_cleared_once_witness:
  "depthRboNeedsClear examplePainter \<and> [exampleLayer, examplePatternLayer, exampleLayer] \<noteq> [] \<and>
   transitions (depthRboNeedsClear examplePainter #
     map depthRboNeedsClear
       (prepareEach examplePainter [exampleLayer, examplePatternLayer, exampleLayer])) = 1 \<and>
   map depthClears (prepareEach examplePainter [exampleLayer, examplePatternLayer, exampleLayer])
     = [1, 1, 1]"
proof -
  have h: "depthRboNeedsClear examplePainter"
    by (simp add: examplePainter_def)
  have c: "depthClears examplePainter = 0"
    by (simp add: depthClears_def examplePainter_def)
  from depth_cleared_once_per_frame [OF h, of "[exampleLayer, examplePatternLayer, exampleLayer]"]
  show ?thesis using h by (simp add: c)
qed

text \<open>
  C3 (as the code has it). A layer that has a cached target keeps it on every preparation,
  with no allocation, whatever the size of the viewport: the preparation never compares the
  target's size with the viewport. A target is created, with the size of the viewport,
  exactly when the layer has none. So two preparations in a row leave the same framebuffer
  handle and the second allocates nothing.
\<close>

theorem target_allocated_once:
  "(viewportFrame l = Some rt \<longrightarrow>
      viewportFrame (snd (drawToExtrusionFramebuffer p l)) = Some (rt\<lparr>depthAttachment := depthRbo p\<rparr>) \<and>
      allocations (trace (fst (drawToExtrusionFramebuffer p l))) = allocations (trace p)) \<and>
   (viewportFrame l = None \<longrightarrow>
      viewportFrame (snd (drawToExtrusionFramebuffer p l)) =
        Some \<lparr>framebuffer = nextHandle p + 1, fbWidth = width p, fbHeight = height p,
              colorAttachment = Some (nextHandle p), depthAttachment = depthRbo p\<rparr> \<and>
      allocations (trace (fst (drawToExtrusionFramebuffer p l))) =
        allocations (trace p) @
          [NewTexture (nextHandle p) (width p) (height p) (RGBA (gl p)),
           CreateFramebuffer (nextHandle p + 1) (width p) (height p)]) \<and>
   map_option framebuffer
     (viewportFrame (snd (drawToExtrusionFramebuffer p' (snd (drawToExtrusionFramebuffer p l))))) =
   map_option framebuffer (viewportFrame (snd (drawToExtrusionFramebuffer p l))) \<and>
   allocations (trace (fst (drawToExtrusionFramebuffer p' (snd (drawToExtrusionFramebuffer p l))))) =
   allocations (trace p')"
proof -
  obtain rt1 where rt1: "viewportFrame (snd (drawToExtrusionFramebuffer p l)) = Some rt1"
    using prepare_cached [of l _ p] prepare_fresh [of l p] by (cases "viewportFrame l") auto
  from prepare_cached [OF rt1, of p'] rt1 prepare_cached [of l rt p] prepare_fresh [of l p]
  show ?thesis by simp
qed

theorem target_allocated_once_witness:
  "viewportFrame (exampleLayer\<lparr>viewportFrame := Some exampleTarget\<rparr>) = Some exampleTarget \<and>
   viewportFrame (snd (drawToExtrusionFramebuffer examplePainter
      (exampleLayer\<lparr>viewportFrame := Some exampleTarget\<rparr>))) =
     Some (exampleTarget\<lparr>depthAttachment := Some 1\<rparr>) \<and>
   viewportFrame exampleLayer = None \<and>
   viewportFrame (snd (drawToExtrusionFramebuffer examplePainter exampleLayer)) =
     Some \<lparr>framebuffer = 11, fbWidth = 800, fbHeight = 600, colorAttachment = Some 10,
           depthAttachment = Some 1\<rparr> \<and>
   allocations (trace (fst (drawToExtrusionFramebuffer examplePainter exampleLayer))) =
     [NewTexture 10 800 600 6408, CreateFramebuffer 11 800 600]"
  using target_allocated_once [of "exampleLayer\<lparr>viewportFrame := Some exampleTarget\<rparr>" exampleTarget
      examplePainter examplePainter]
    target_allocated_once [of exampleLayer exampleTarget examplePainter examplePainter]
  by (simp add: examplePainter_def exampleLayer_def exampleGl_def allocations_def)

text \<open>
  C3 as stated fails: with a viewport of 800 by 600 and a cached target of 400 by 300, the
  preparation keeps the stale target (handle 5, 400 by 300) and allocates nothing.
\<close>

theorem target_kept_on_resize_counterexample:
  "(fbWidth exampleTarget, fbHeight exampleTarget) \<noteq> (width examplePainter, height examplePainter) \<and>
   viewportFrame (snd (drawToExtrusionFramebuffer examplePainter
      (exampleLayer\<lparr>viewportFrame := Some exampleTarget\<rparr>))) =
     Some \<lparr>framebuffer = 5, fbWidth = 400, fbHeight = 300, colorAttachment = Some 4,
           depthAttachment = Some 1\<rparr> \<and>
   allocations (trace (fst (drawToExtrusionFramebuffer examplePainter
      (exampleLayer\<lparr>viewportFrame := Some exampleTarget\<rparr>)))) = []"
  by (simp add: drawToExtrusionFramebuffer_def Let_def setupOffscreenDepthRenderbuffer_def
      allocations_def exampleTarget_def examplePainter_def exampleLayer_def)

text \<open>
  C4. For a layer whose opacity is exactly zero, \<open>draw\<close> returns at once in every pass: the
  painter (its trace of calls and its allocation counter) and the layer are unchanged.
\<close>

theorem zero_opacity_draws_nothing:
  "fill_extrusion_opacity (paint layer) = 0 \<Longrightarrow>
   draw E painter source layer coords = Inr (painter, layer)"
  by (simp add: draw_def)

theorem zero_opacity_witness:
  "fill_extrusion_opacity (paint (exampleLayer\<lparr>paint := examplePaint\<lparr>fill_extrusion_opacity := 0\<rparr>\<rparr>)) = 0 \<and>
   draw exampleEnv examplePainter exampleSource
     (exampleLayer\<lparr>paint := examplePaint\<lparr>fill_extrusion_opacity := 0\<rparr>\<rparr>)
     [exampleCoord 1, exampleCoord 2] =
     Inr (examplePainter, exampleLayer\<lparr>paint := examplePaint\<lparr>fill_extrusion_opacity := 0\<rparr>\<rparr>) \<and>
   draw exampleEnv (examplePainter\<lparr>renderPass := ''translucent''\<rparr>) exampleSource
     (exampleLayer\<lparr>paint := examplePaint\<lparr>fill_extrusion_opacity := 0\<rparr>,
                   viewportFrame := Some exampleTarget\<rparr>)
     [exampleCoord 1, exampleCoord 2] =
     Inr (examplePainter\<lparr>renderPass := ''translucent''\<rparr>,
          exampleLayer\<lparr>paint := examplePaint\<lparr>fill_extrusion_opacity := 0\<rparr>,
                        viewportFrame := Some exampleTarget\<rparr>)"
  using zero_opacity_draws_nothing [of "exampleLayer\<lparr>paint := examplePaint\<lparr>fill_extrusion_opacity := 0\<rparr>\<rparr>"
      exampleEnv examplePainter exampleSource "[exampleCoord 1, exampleCoord 2]"]
    zero_opacity_draws_nothing [of "exampleLayer\<lparr>paint := examplePaint\<lparr>fill_extrusion_opacity := 0\<rparr>,
                        viewportFrame := Some exampleTarget\<rparr>"
      exampleEnv "examplePainter\<lparr>renderPass := ''translucent''\<rparr>" exampleSource
      "[exampleCoord 1, exampleCoord 2]"]
  by simp

text \<open>
  C5 (what the file does). Three tiles that all have a bucket, the layer's pattern present,
  and an atlas that reports the image missing at its second query only, that is for the
  second tile. The claim asks for two draw calls and a pass that ends normally. In the
  file's own scope the pass stops with a ReferenceError for \<open>gl\<close> at the first tile, before
  any draw. Were \<open>gl\<close> bound, it would stop at the same tile with a ReferenceError for
  \<open>fillExtrusionPatternUniforms\<close>, on line 118, again before any draw.
\<close>

theorem missing_pattern_pass_raises:
  "draw (unboundEnv\<lparr>isPatternMissing := (\<lambda>im p. patternQueries im (trace p) = 1)\<rparr>)
     examplePainter exampleSource examplePatternLayer
     [exampleCoord 1, exampleCoord 2, exampleCoord 3] = Inl (ReferenceError ''gl'') \<and>
   draw (unboundEnv\<lparr>free_gl := Some exampleGl,
                     isPatternMissing := (\<lambda>im p. patternQueries im (trace p) = 1)\<rparr>)
     examplePainter exampleSource examplePatternLayer
     [exampleCoord 1, exampleCoord 2, exampleCoord 3] =
     Inl (ReferenceError ''fillExtrusionPatternUniforms'')"
proof -
  let ?cs = "[exampleCoord 1, exampleCoord 2, exampleCoord 3]"
  let ?im = "CrossFaded ''a'' ''b''"
  let ?E1 = "unboundEnv\<lparr>isPatternMissing := (\<lambda>im p. patternQueries im (trace p) = 1)\<rparr>"
  let ?E2 = "unboundEnv\<lparr>free_gl := Some exampleGl,
                     isPatternMissing := (\<lambda>im p. patternQueries im (trace p) = 1)\<rparr>"
  have o: "fill_extrusion_opacity (paint examplePatternLayer) \<noteq> 0"
    by (simp add: examplePatternLayer_def exampleLayer_def examplePaint_def)
  have p: "renderPass examplePainter = ''offscreen''"
    by (simp add: examplePainter_def)
  have im: "fill_extrusion_pattern (paint examplePatternLayer) = Some ?im"
    by (simp add: examplePatternLayer_def exampleLayer_def examplePaint_def)
  have b: "\<exists>c \<in> set ?cs. buckets (exampleSource c) (layerId examplePatternLayer) \<noteq> None"
    by (simp add: exampleSource_def exampleCoord_def)
  have b1: "buckets (exampleSource (exampleCoord 1)) (layerId examplePatternLayer) =
      Some \<lparr>programConfigurations = (\<lambda>l. 1), layoutVertexBuffer = 101, indexBuffer = 201,
            segments = 301\<rparr>"
    by (simp add: exampleSource_def exampleCoord_def)
  have g1: "free_gl ?E1 = None"
    by (simp add: unboundEnv_def)
  have g2: "free_gl ?E2 = Some exampleGl" "fillExtrusionPatternUniforms ?E2 = None"
    by (simp_all add: unboundEnv_def)
  have "patternQueries ?im (trace examplePainter) = 0"
    by (simp add: examplePainter_def)
  then have q: "\<not> isPatternMissing ?E2 ?im
      (fst (drawToExtrusionFramebuffer examplePainter examplePatternLayer))"
    by simp
  have 1: "draw ?E1 examplePainter exampleSource examplePatternLayer ?cs =
      Inl (ReferenceError ''gl'')"
    by (rule draw_unbound_gl [OF g1 o p b])
  have 2: "draw ?E2 examplePainter exampleSource examplePatternLayer ?cs =
      Inl (ReferenceError ''fillExtrusionPatternUniforms'')"
    by (rule draw_unbound_pattern_uniforms
        [where source = exampleSource and coord = "exampleCoord 1", OF g2 im o p b1 q])
  from 1 2 show ?thesis by (intro conjI)
qed

text \<open>
  C6. The light position that \<open>drawExtrusion\<close> computes is the light's position when the
  anchor is \<open>map\<close>, and the position rotated by minus the bearing angle about the vertical
  axis when the anchor is \<open>viewport\<close>; the uniforms take the position so computed, the
  light's intensity and the red, green and blue of its colour as they are.
\<close>

theorem light_position_by_anchor:
  "(anchor lt = ''map'' \<longrightarrow> lightPos lt bearing = position lt) \<and>
   (anchor lt = ''viewport'' \<longrightarrow> lightPos lt bearing = rotateAboutVertical (- bearing) (position lt)) \<and>
   map_of (lightUniforms lt bearing) ''u_lightpos'' = Some (UVec3 (lightPos lt bearing)) \<and>
   map_of (lightUniforms lt bearing) ''u_lightintensity'' = Some (UFloat (intensity lt)) \<and>
   map_of (lightUniforms lt bearing) ''u_lightcolor'' =
     Some (UVec3 (fst (color lt), fst (snd (color lt)), fst (snd (snd (color lt)))))"
proof -
  obtain x y z where p: "position lt = (x, y, z)" by (cases "position lt")
  obtain r g b a where c: "color lt = (r, g, b, a)" by (cases "color lt")
  have 1: "anchor lt = ''map'' \<longrightarrow> lightPos lt bearing = position lt"
    by (simp add: lightPos_def mat3_create_def vec3_transformMat3_def p)
  have 2: "anchor lt = ''viewport'' \<longrightarrow>
      lightPos lt bearing = rotateAboutVertical (- bearing) (position lt)"
    by (simp add: lightPos_def mat3_fromRotation_def vec3_transformMat3_def
        rotateAboutVertical_def Let_def p)
  have 3: "map_of (lightUniforms lt bearing) ''u_lightpos'' = Some (UVec3 (lightPos lt bearing))"
    "map_of (lightUniforms lt bearing) ''u_lightintensity'' = Some (UFloat (intensity lt))"
    "map_of (lightUniforms lt bearing) ''u_lightcolor'' =
     Some (UVec3 (fst (color lt), fst (snd (color lt)), fst (snd (snd (color lt)))))"
    by (simp_all add: lightUniforms_def c)
  from 1 2 3 show ?thesis by blast
qed

theorem light_position_witness:
  "anchor exampleLight = ''viewport'' \<and>
   lightPos exampleLight (pi / 2) = (0, - 1, 3) \<and>
   anchor (exampleLight\<lparr>anchor := ''map''\<rparr>) = ''map'' \<and>
   lightPos (exampleLight\<lparr>anchor := ''map''\<rparr>) (pi / 2) = (1, 0, 3)"
  using light_position_by_anchor [of exampleLight "pi / 2"]
    light_position_by_anchor [of "exampleLight\<lparr>anchor := ''map''\<rparr>" "pi / 2"]
  by (simp add: exampleLight_def rotateAboutVertical_def)

text \<open>
  C7 (what the file does). In the offscreen pass the target is prepared and the tiles without
  a bucket are passed over, but at the first tile that has a bucket the depth mode of line
  38 cannot be built: \<open>gl\<close> is not bound in \<open>draw\<close>, and the pass stops with a ReferenceError
  before that tile's draw is dispatched. A pass over tiles without buckets ends normally
  with the painter and the layer that the preparation leaves.
\<close>

theorem accumulation_pass_raises:
  "draw unboundEnv examplePainter exampleSource exampleLayer
     [exampleCoord 0, exampleCoord 1, exampleCoord 2] = Inl (ReferenceError ''gl'') \<and>
   draw unboundEnv examplePainter exampleSource exampleLayer [exampleCoord 0, exampleCoord 0] =
     Inr (drawToExtrusionFramebuffer examplePainter exampleLayer)"
proof -
  have g: "free_gl unboundEnv = None"
    by (simp add: unboundEnv_def)
  have o: "fill_extrusion_opacity (paint exampleLayer) \<noteq> 0"
    by (simp add: exampleLayer_def examplePaint_def)
  have p: "renderPass examplePainter = ''offscreen''"
    by (simp add: examplePainter_def)
  have b: "\<exists>c \<in> set [exampleCoord 0, exampleCoord 1, exampleCoord 2].
      buckets (exampleSource c) (layerId exampleLayer) \<noteq> None"
    by (simp add: exampleSource_def exampleCoord_def)
  have n: "\<forall>c \<in> set [exampleCoord 0, exampleCoord 0].
      buckets (exampleSource c) (layerId exampleLayer) = None"
    by (simp add: exampleSource_def exampleCoord_def)
  have 1: "draw unboundEnv examplePainter exampleSource exampleLayer
     [exampleCoord 0, exampleCoord 1, exampleCoord 2] = Inl (ReferenceError ''gl'')"
    by (rule draw_unbound_gl [OF g o p b])
  have 2: "draw unboundEnv examplePainter exampleSource exampleLayer [exampleCoord 0, exampleCoord 0] =
     Inr (drawToExtrusionFramebuffer examplePainter exampleLayer)"
    by (rule draw_without_buckets [OF o p n])
  from 1 2 show ?thesis by (intro conjI)
qed

text \<open>
  C8. Without a cached target, \<open>drawExtrusionTexture\<close> leaves the painter as it is. With one,
  it makes the calls listed, in this order: the program, stencil and depth test disabled,
  the colour mode that \<open>painter.colorModeForRenderPass\<close> answers on line 89, that is on the
  painter as the three calls before have left it, the target's colour texture bound, the
  opacity uniform set to
  the layer's opacity, the orthographic projection over the painter's width and height,
  and one draw of a triangle strip of 4 vertices.
\<close>

theorem blit_composites_cached_target:
  "(viewportFrame layer = None \<longrightarrow> drawExtrusionTexture E painter layer = painter) \<and>
   (viewportFrame layer = Some rt \<longrightarrow>
      trace (drawExtrusionTexture E painter layer) = trace painter @
         [UseProgram ''extrusionTexture'' None None,
          SetStencilMode StencilDisabled,
          SetDepthMode DepthDisabled,
          SetColorMode
            (colorModeForRenderPass E
               (emit [UseProgram ''extrusionTexture'' None None,
                      SetStencilMode StencilDisabled,
                      SetDepthMode DepthDisabled]
                  (painter\<lparr>context_program :=
                     Some (program (resolveProgram E ''extrusionTexture'' None None))\<rparr>))),
          ActiveTextureSet (TEXTURE0 (gl painter)),
          BindTexture (TEXTURE_2D (gl painter)) (colorAttachment rt),
          Uniform1f ''u_opacity'' (fill_extrusion_opacity (paint layer)),
          Uniform1i ''u_image'' 0,
          UniformMatrix4fv ''u_matrix'' False (mat4_ortho 0 (width painter) (height painter) 0 0 1),
          Uniform2f ''u_world'' (drawingBufferWidth (gl painter)) (drawingBufferHeight (gl painter)),
          VaoBind (program (resolveProgram E ''extrusionTexture'' None None)),
          DrawArrays (TRIANGLE_STRIP (gl painter)) 0 4] \<and>
      drawCalls (trace (drawExtrusionTexture E painter layer)) =
        drawCalls (trace painter) @ [DrawArrays (TRIANGLE_STRIP (gl painter)) 0 4] \<and>
      assigned ''u_opacity'' (trace (drawExtrusionTexture E painter layer)) =
        assigned ''u_opacity'' (trace painter) @ [UFloat (fill_extrusion_opacity (paint layer))])"
  by (simp add: drawExtrusionTexture_def useProgram_def Let_def drawCalls_def assigned_def
      map_filter_def emit_def)

theorem blit_witness:
  "viewportFrame exampleLayer = None \<and>
   drawExtrusionTexture exampleEnv (examplePainter\<lparr>renderPass := ''translucent''\<rparr>) exampleLayer =
     examplePainter\<lparr>renderPass := ''translucent''\<rparr> \<and>
   viewportFrame (exampleLayer\<lparr>viewportFrame := Some exampleTarget\<rparr>) = Some exampleTarget \<and>
   trace (drawExtrusionTexture exampleEnv (examplePainter\<lparr>renderPass := ''translucent''\<rparr>)
       (exampleLayer\<lparr>viewportFrame := Some exampleTarget\<rparr>)) =
     [UseProgram ''extrusionTexture'' None None,
      SetStencilMode StencilDisabled,
      SetDepthMode DepthDisabled,
      SetColorMode (ColorMode 1),
      ActiveTextureSet 33984,
      BindTexture 3553 (Some 4),
      Uniform1f ''u_opacity'' 1,
      Uniform1i ''u_image'' 0,
      UniformMatrix4fv ''u_matrix'' False
        [1 / 400, 0, 0, 0, 0, - (1 / 300), 0, 0, 0, 0, - 2, 0, - 1, 1, - 1, 1],
      Uniform2f ''u_world'' 800 600,
      VaoBind 7,
      DrawArrays 5 0 4]"
  using blit_composites_cached_target [of exampleLayer exampleEnv
      "examplePainter\<lparr>renderPass := ''translucent''\<rparr>" exampleTarget]
    blit_composites_cached_target [of "exampleLayer\<lparr>viewportFrame := Some exampleTarget\<rparr>" exampleEnv
      "examplePainter\<lparr>renderPass := ''translucent''\<rparr>" exampleTarget]
  by (simp add: exampleLayer_def examplePainter_def exampleEnv_def exampleGl_def exampleTarget_def
      examplePaint_def mat4_ortho_def)

text \<open>
  C9 (what the file does). A patterned tile draw, with the pattern present, its image resident
  and a tile of size 512, never reaches line 159: line 118 reads
  \<open>fillExtrusionPatternUniforms\<close>, whose import on line 14 is commented out, and the draw
  stops with a ReferenceError before any uniform is set.
\<close>

theorem patterned_draw_raises:
  "fill_extrusion_pattern (paint examplePatternLayer) = Some (CrossFaded ''a'' ''b'') \<and>
   \<not> isPatternMissing unboundEnv (CrossFaded ''a'' ''b'') examplePainter \<and>
   tileSize (exampleSource (exampleCoord 1)) = 512 \<and>
   drawExtrusion unboundEnv examplePainter examplePatternLayer
     (exampleSource (exampleCoord 1)) (exampleCoord 1) exampleBucket True
     (DepthMode 515 ReadWrite (0, 1)) StencilDisabled (ColorMode 1) =
     Inl (ReferenceError ''fillExtrusionPatternUniforms'')"
proof -
  have im: "fill_extrusion_pattern (paint examplePatternLayer) = Some (CrossFaded ''a'' ''b'')"
    by (simp add: examplePatternLayer_def exampleLayer_def examplePaint_def)
  have m: "\<not> isPatternMissing unboundEnv (CrossFaded ''a'' ''b'') examplePainter"
    by (simp add: unboundEnv_def exampleEnv_def)
  have u: "fillExtrusionPatternUniforms unboundEnv = None"
    by (simp add: unboundEnv_def)
  have t: "tileSize (exampleSource (exampleCoord 1)) = 512"
    by (simp add: exampleSource_def)
  from im m t unbound_pattern_uniforms_raise [OF im m u] show ?thesis
    by (intro conjI)
qed

text \<open>
  C10 (what the file does). A tile without a bucket is passed over and leaves \<open>first\<close> as it
  is: a pass over such tiles only ends normally. But no tile is ever skipped for a missing
  pattern image, and none is treated as not-first: with the pattern present and its image
  missing, the pass stops with a ReferenceError for \<open>gl\<close> at the first tile that has a
  bucket, on line 38, before \<open>drawExtrusion\<close> and its residency query are reached.
\<close>

theorem first_flag_pass_raises:
  "buckets (exampleSource (exampleCoord 0)) (layerId examplePatternLayer) = None \<and>
   buckets (exampleSource (exampleCoord 1)) (layerId examplePatternLayer) \<noteq> None \<and>
   buckets (exampleSource (exampleCoord 2)) (layerId examplePatternLayer) \<noteq> None \<and>
   drawTiles (unboundEnv\<lparr>isPatternMissing := (\<lambda>im p. True)\<rparr>) exampleSource
     examplePatternLayer True examplePainter [exampleCoord 0] = Inr examplePainter \<and>
   drawTiles (unboundEnv\<lparr>isPatternMissing := (\<lambda>im p. True)\<rparr>) exampleSource
     examplePatternLayer True examplePainter
     [exampleCoord 0, exampleCoord 1, exampleCoord 2] = Inl (ReferenceError ''gl'') \<and>
   draw (unboundEnv\<lparr>isPatternMissing := (\<lambda>im p. True)\<rparr>) examplePainter exampleSource
     examplePatternLayer [exampleCoord 0, exampleCoord 1, exampleCoord 2] =
     Inl (ReferenceError ''gl'')"
proof -
  let ?E = "unboundEnv\<lparr>isPatternMissing := (\<lambda>im p. True)\<rparr>"
  let ?cs = "[exampleCoord 0, exampleCoord 1, exampleCoord 2]"
  have b0: "buckets (exampleSource (exampleCoord 0)) (layerId examplePatternLayer) = None"
    by (simp add: exampleSource_def exampleCoord_def)
  have b1: "buckets (exampleSource (exampleCoord 1)) (layerId examplePatternLayer) \<noteq> None"
    by (simp add: exampleSource_def exampleCoord_def)
  have b2: "buckets (exampleSource (exampleCoord 2)) (layerId examplePatternLayer) \<noteq> None"
    by (simp add: exampleSource_def exampleCoord_def)
  have g: "free_gl ?E = None"
    by (simp add: unboundEnv_def)
  have o: "fill_extrusion_opacity (paint examplePatternLayer) \<noteq> 0"
    by (simp add: examplePatternLayer_def exampleLayer_def examplePaint_def)
  have p: "renderPass examplePainter = ''offscreen''"
    by (simp add: examplePainter_def)
  have b: "\<exists>c \<in> set ?cs. buckets (exampleSource c) (layerId examplePatternLayer) \<noteq> None"
    using b1 by simp
  have 1: "drawTiles ?E exampleSource examplePatternLayer True examplePainter [exampleCoord 0] =
      Inr examplePainter"
    using b0 by simp
  have 2: "drawTiles ?E exampleSource examplePatternLayer True examplePainter ?cs =
      Inl (ReferenceError ''gl'')"
    by (rule drawTiles_unbound_gl [OF g b])
  have 3: "draw ?E examplePainter exampleSource examplePatternLayer ?cs =
      Inl (ReferenceError ''gl'')"
    by (rule draw_unbound_gl [OF g o p b])
  from b0 b1 b2 1 2 3 show ?thesis by (intro conjI)
qed

end
